theory Spec2Isabelle
  imports Complex_Main
begin

section \<open>Sensor monitoring core of \<^verbatim>\<open>T01_4Pilares_Sensores.py\<close>\<close>

text \<open>
  Conventions of the embedding.
  \<^item> A Python \<^verbatim>\<open>float\<close> is a rational number (\<^typ>\<open>rat\<close>): sums, the mean and the
    comparisons are exact. Rounding of binary floating point, infinities and NaN are
    not part of the model.
  \<^item> A Python \<^verbatim>\<open>int\<close> is an \<^typ>\<open>int\<close>, a \<^verbatim>\<open>str\<close> is a \<^typ>\<open>string\<close>.
  \<^item> Mutation is state passing: a method that changes \<^verbatim>\<open>self\<close> returns the new object.
  \<^item> An exception is a value: a method that can reach a raising library call returns
    \<open>py_error + 'a\<close>, with \<open>Inl\<close> for the exception.
  \<^item> Console output and calls of \<^verbatim>\<open>enviar\<close> are recorded, in order, in a trace that
    is passed through the methods that print.
\<close>

subsection \<open>Library functions the source calls\<close>

datatype py_error = IndexError | StatisticsError

text \<open>\<^verbatim>\<open>list.pop(0)\<close>: removes and returns the first element; IndexError on an empty list.\<close>

definition pop0 :: "'a list \<Rightarrow> py_error + ('a \<times> 'a list)" where
  "pop0 xs = (case xs of [] \<Rightarrow> Inl IndexError | x # rest \<Rightarrow> Inr (x, rest))"

text \<open>\<^verbatim>\<open>statistics.mean\<close>: the sum divided by the number of data points; StatisticsError
  when there is no data.\<close>

definition mean :: "rat list \<Rightarrow> py_error + rat" where
  "mean xs = (if xs = [] then Inl StatisticsError
              else Inr (sum_list xs / of_nat (length xs)))"

text \<open>The format specification \<^verbatim>\<open>:.2f\<close>: sign, integer part, a point and two decimals,
  the value rounded to the nearest hundredth, a tie going to the even neighbour.\<close>

definition digit_char :: "nat \<Rightarrow> char" where
  "digit_char d = ''0123456789'' ! d"

fun str_nat :: "nat \<Rightarrow> string" where
  "str_nat n = (if n < 10 then [digit_char n]
                else str_nat (n div 10) @ [digit_char (n mod 10)])"

definition round_half_even :: "rat \<Rightarrow> int" where
  "round_half_even q =
     (let f = \<lfloor>q\<rfloor>; d = q - of_int f
      in if d < 1 / 2 then f
         else if 1 / 2 < d then f + 1
         else if even f then f else f + 1)"

definition format_2f :: "rat \<Rightarrow> string" where
  "format_2f q =
     (let h = nat (round_half_even (\<bar>q\<bar> * 100))
      in (if q < 0 then ''-'' else '''')
         @ str_nat (h div 100) @ ''.''
         @ [digit_char ((h mod 100) div 10), digit_char (h mod 10)])"

subsection \<open>Sensors\<close>

text \<open>The four concrete subclasses of \<^verbatim>\<open>Sensor\<close> differ in their threshold fields and in
  \<^verbatim>\<open>en_alerta\<close>; the abstract class itself cannot be instantiated.\<close>

datatype variante =
    SensorTemperatura rat       \<comment> \<open>\<^verbatim>\<open>umbral\<close>\<close>
  | SensorVibracion rat         \<comment> \<open>\<^verbatim>\<open>rms_umbral\<close>\<close>
  | SensorSismo rat             \<comment> \<open>\<^verbatim>\<open>magnitud_umbral\<close>\<close>
  | SensorVolcan rat rat        \<comment> \<open>\<^verbatim>\<open>temperatura_umbral\<close>, \<^verbatim>\<open>gas_umbral\<close>\<close>

record sensor =
  sensor_id :: string           \<comment> \<open>\<^verbatim>\<open>id\<close>\<close>
  ventana :: int
  calibracion :: rat            \<comment> \<open>\<^verbatim>\<open>_calibracion\<close>\<close>
  buffer :: "rat list"          \<comment> \<open>\<^verbatim>\<open>_buffer\<close>, oldest reading first\<close>
  clase :: variante

text \<open>\<^verbatim>\<open>Sensor.leer\<close>.\<close>

definition leer :: "sensor \<Rightarrow> rat \<Rightarrow> py_error + sensor" where
  "leer s valor =
     (let v = valor + calibracion s;
          buf = buffer s @ [v]
      in if int (length buf) > ventana s
         then (case pop0 buf of
                 Inl e \<Rightarrow> Inl e
               | Inr (_, buf') \<Rightarrow> Inr (s\<lparr>buffer := buf'\<rparr>))
         else Inr (s\<lparr>buffer := buf\<rparr>))"

text \<open>A caller feeding readings one after the other, as the loop of
  \<^verbatim>\<open>probar_sistema\<close> does; the first exception ends the run.\<close>

fun leer_todas :: "sensor \<Rightarrow> rat list \<Rightarrow> py_error + sensor" where
  "leer_todas s [] = Inr s"
| "leer_todas s (valor # resto) =
     (case leer s valor of Inl e \<Rightarrow> Inl e | Inr s' \<Rightarrow> leer_todas s' resto)"

text \<open>\<^verbatim>\<open>Sensor.promedio\<close>.\<close>

definition promedio :: "sensor \<Rightarrow> py_error + rat" where
  "promedio s = (if buffer s \<noteq> [] then mean (buffer s) else Inr 0)"

text \<open>\<^verbatim>\<open>en_alerta\<close>, dispatched on the class of the sensor.\<close>

definition en_alerta :: "sensor \<Rightarrow> py_error + bool" where
  "en_alerta s =
     (case clase s of
        SensorTemperatura umbral \<Rightarrow>
          (case promedio s of Inl e \<Rightarrow> Inl e | Inr p \<Rightarrow> Inr (p \<ge> umbral))
      | SensorVibracion rms_umbral \<Rightarrow>
          (case promedio s of Inl e \<Rightarrow> Inl e | Inr p \<Rightarrow> Inr (\<bar>p\<bar> \<ge> rms_umbral))
      | SensorSismo magnitud_umbral \<Rightarrow>
          (case promedio s of Inl e \<Rightarrow> Inl e | Inr p \<Rightarrow> Inr (p \<ge> magnitud_umbral))
      | SensorVolcan temperatura_umbral gas_umbral \<Rightarrow>
          (case promedio s of
             Inl e \<Rightarrow> Inl e
           | Inr p \<Rightarrow>
               if p \<ge> temperatura_umbral then Inr True
               else (case promedio s of
                       Inl e \<Rightarrow> Inl e
                     | Inr p' \<Rightarrow> Inr (p' \<ge> gas_umbral))))"

text \<open>The average in the words of the specification: the arithmetic mean of the buffer,
  or 0 for an empty buffer. It is compared with \<open>promedio\<close> below.\<close>

definition spec_average :: "rat list \<Rightarrow> rat" where
  "spec_average xs = (if xs = [] then 0 else sum_list xs / of_nat (length xs))"

subsection \<open>Notification channels and the trace of effects\<close>

text \<open>The three classes that implement the protocol \<^verbatim>\<open>Notificador\<close>, each holding its
  destination. Channels have no state and \<^verbatim>\<open>enviar\<close> only prints, so two channels of
  the same class and destination cannot be told apart by what they do: a channel is its
  value.\<close>

datatype notificador =
    NotificadorEmail string     \<comment> \<open>\<^verbatim>\<open>_destinatario\<close>\<close>
  | NotificadorWebhook string   \<comment> \<open>\<^verbatim>\<open>_url\<close>\<close>
  | NotificadorSMS string       \<comment> \<open>\<^verbatim>\<open>_telefono\<close>\<close>

text \<open>What happens, in order: \<open>Llamada n msg\<close> marks a call \<^verbatim>\<open>n.enviar(msg)\<close>,
  \<open>Print l\<close> is a line written by \<^verbatim>\<open>print\<close>.\<close>

datatype efecto = Llamada notificador string | Print string

type_synonym traza = "efecto list"

text \<open>\<^verbatim>\<open>enviar\<close> of the three classes.\<close>

fun enviar :: "notificador \<Rightarrow> string \<Rightarrow> traza \<Rightarrow> traza" where
  "enviar (NotificadorEmail destinatario) mensaje t =
     t @ [Llamada (NotificadorEmail destinatario) mensaje,
          Print (''[EMAIL a '' @ destinatario @ ''] '' @ mensaje)]"
| "enviar (NotificadorWebhook url) mensaje t =
     t @ [Llamada (NotificadorWebhook url) mensaje,
          Print (''[WEBHOOK '' @ url @ ''] '' @ mensaje)]"
| "enviar (NotificadorSMS telefono) mensaje t =
     t @ [Llamada (NotificadorSMS telefono) mensaje,
          Print (''[SMS a '' @ telefono @ ''] '' @ mensaje)]"

text \<open>The calls of \<^verbatim>\<open>enviar\<close> in a trace, in order.\<close>

fun llamadas :: "traza \<Rightarrow> (notificador \<times> string) list" where
  "llamadas [] = []"
| "llamadas (Llamada n msg # t) = (n, msg) # llamadas t"
| "llamadas (Print l # t) = llamadas t"

subsection \<open>\<^verbatim>\<open>GestorAlertas\<close>\<close>

record gestor_alertas =
  sensores :: "sensor list"             \<comment> \<open>\<^verbatim>\<open>_sensores\<close>\<close>
  notificadores :: "notificador list"   \<comment> \<open>\<^verbatim>\<open>_notificadores\<close>\<close>

text \<open>The inner loop \<^verbatim>\<open>for n in self._notificadores: n.enviar(msg)\<close>.\<close>

fun notificar_todos :: "notificador list \<Rightarrow> string \<Rightarrow> traza \<Rightarrow> traza" where
  "notificar_todos [] msg t = t"
| "notificar_todos (n # ns) msg t = notificar_todos ns msg (enviar n msg t)"

text \<open>The outer loop \<^verbatim>\<open>for s in self._sensores\<close>.\<close>

fun evaluar_sensores ::
  "sensor list \<Rightarrow> notificador list \<Rightarrow> traza \<Rightarrow> py_error + traza" where
  "evaluar_sensores [] ns t = Inr t"
| "evaluar_sensores (s # ss) ns t =
     (case en_alerta s of
        Inl e \<Rightarrow> Inl e
      | Inr True \<Rightarrow>
          (case promedio s of
             Inl e \<Rightarrow> Inl e
           | Inr p \<Rightarrow>
               let msg = ''ALERTA: Sensor '' @ sensor_id s @ '' en umbral (avg=''
                         @ format_2f p @ '')''
               in evaluar_sensores ss ns (notificar_todos ns msg t))
      | Inr False \<Rightarrow> evaluar_sensores ss ns t)"

text \<open>\<^verbatim>\<open>GestorAlertas.evaluar_y_notificar\<close>.\<close>

definition evaluar_y_notificar :: "gestor_alertas \<Rightarrow> traza \<Rightarrow> py_error + traza" where
  "evaluar_y_notificar g t = evaluar_sensores (sensores g) (notificadores g) t"

subsection \<open>\<^verbatim>\<open>PanelEmergencias\<close>\<close>

record panel_emergencias =
  gestor :: gestor_alertas
  notificador :: notificador
  indicadores :: "sensor list"

text \<open>The loop \<^verbatim>\<open>for s in self.indicadores\<close>, with the channel of the panel.\<close>

fun actualizar_indicadores :: "sensor list \<Rightarrow> notificador \<Rightarrow> traza \<Rightarrow> py_error + traza" where
  "actualizar_indicadores [] n t = Inr t"
| "actualizar_indicadores (s # ss) n t =
     (case en_alerta s of
        Inl e \<Rightarrow> Inl e
      | Inr a \<Rightarrow>
          let estado = (if a then ''ALERTA'' else ''NORMAL'')
          in (case promedio s of
                Inl e \<Rightarrow> Inl e
              | Inr p \<Rightarrow>
                  let t1 = t @ [Print (''[PANEL] Sensor '' @ sensor_id s @ '': '' @ estado
                                       @ '' (avg='' @ format_2f p @ '')'')]
                  in (case en_alerta s of
                        Inl e \<Rightarrow> Inl e
                      | Inr True \<Rightarrow>
                          actualizar_indicadores ss n
                            (enviar n (''ALERTA: '' @ sensor_id s @ '' en estado '' @ estado) t1)
                      | Inr False \<Rightarrow> actualizar_indicadores ss n t1)))"

text \<open>\<^verbatim>\<open>PanelEmergencias.actualizar_panel\<close>.\<close>

definition actualizar_panel :: "panel_emergencias \<Rightarrow> traza \<Rightarrow> py_error + traza" where
  "actualizar_panel p t = actualizar_indicadores (indicadores p) (notificador p) t"

subsection \<open>\<^verbatim>\<open>HistorialEventos\<close>\<close>

text \<open>A timestamp is the value \<^verbatim>\<open>datetime.now()\<close> returns when the record is built; the
  clock is an input of the model.\<close>

type_synonym datetime = nat

record registro_evento =
  sensor :: sensor
  mensaje :: string
  timestamp :: datetime

record historial_eventos =
  registros :: "registro_evento list"

text \<open>\<^verbatim>\<open>HistorialEventos.agregar_evento\<close>; \<open>now\<close> is the reading of the clock.\<close>

definition agregar_evento ::
  "historial_eventos \<Rightarrow> sensor \<Rightarrow> string \<Rightarrow> datetime \<Rightarrow> historial_eventos" where
  "agregar_evento h s msg now =
     h\<lparr>registros := registros h @ [\<lparr>sensor = s, mensaje = msg, timestamp = now\<rparr>]\<rparr>"

text \<open>A caller adding events one after the other, each with its clock reading.\<close>

fun agregar_eventos ::
  "historial_eventos \<Rightarrow> (sensor \<times> string \<times> datetime) list \<Rightarrow> historial_eventos" where
  "agregar_eventos h [] = h"
| "agregar_eventos h ((s, msg, now) # resto) = agregar_eventos (agregar_evento h s msg now) resto"

section \<open>Properties\<close>

subsection \<open>Evaluating the number formatter\<close>

declare str_nat.simps [simp del]

lemma str_nat_small: "n < 10 \<Longrightarrow> str_nat n = [digit_char n]"
  by (subst str_nat.simps) simp

lemma str_nat_big: "10 \<le> n \<Longrightarrow> str_nat n = str_nat (n div 10) @ [digit_char (n mod 10)]"
  by (subst str_nat.simps) simp

lemmas format_2f_eval =
  format_2f_def round_half_even_def digit_char_def str_nat_small str_nat_big Let_def

lemma format_2f_85: "format_2f 85 = ''85.00''"
  by (simp add: format_2f_eval)

lemma format_2f_13_2: "format_2f (13 / 2) = ''6.50''"
  by (simp add: format_2f_eval)

subsection \<open>The window of a sensor\<close>

lemma promedio_eq: "promedio s = Inr (spec_average (buffer s))"
  by (simp add: promedio_def mean_def spec_average_def)

lemma leer_step:
  "leer s v = Inr (s\<lparr>buffer :=
      (if ventana s < int (length (buffer s)) + 1
       then tl (buffer s @ [v + calibracion s])
       else buffer s @ [v + calibracion s])\<rparr>)"
  by (cases "buffer s") (simp_all add: leer_def pop0_def Let_def)

lemma drop_one_tl: "drop 1 xs = tl xs"
  by (simp add: drop_Suc)

lemma leer_step_window:
  assumes "int (length (buffer s)) \<le> ventana s"
  shows "leer s v = Inr (s\<lparr>buffer :=
           drop (length (buffer s) + 1 - nat (ventana s)) (buffer s @ [v + calibracion s])\<rparr>)"
proof (cases "ventana s < int (length (buffer s)) + 1")
  case True
  with assms have eq: "length (buffer s) + 1 - nat (ventana s) = 1" by linarith
  show ?thesis unfolding leer_step eq drop_one_tl using True by simp
next
  case False
  then have eq: "length (buffer s) + 1 - nat (ventana s) = 0" by linarith
  show ?thesis unfolding leer_step eq using False by simp
qed

lemma leer_todas_window:
  "int (length (buffer s)) \<le> ventana s \<Longrightarrow>
   leer_todas s vs = Inr (s\<lparr>buffer :=
      drop (length (buffer s) + length vs - nat (ventana s))
           (buffer s @ map (\<lambda>v. v + calibracion s) vs)\<rparr>)"
proof (induction vs arbitrary: s)
  case Nil
  then have "length (buffer s) - nat (ventana s) = 0" by linarith
  then show ?case by simp
next
  case (Cons v vs)
  define b where "b = buffer s @ [v + calibracion s]"
  define k where "k = length (buffer s) + 1 - nat (ventana s)"
  define s1 where "s1 = s\<lparr>buffer := drop k b\<rparr>"
  define ys where "ys = map (\<lambda>v. v + calibracion s) vs"
  have step: "leer s v = Inr s1"
    unfolding s1_def k_def b_def using Cons.prems by (rule leer_step_window)
  have lenb: "length b = length (buffer s) + 1" by (simp add: b_def)
  have k: "k \<le> length b" by (simp add: k_def lenb)
  have inv: "int (length (buffer s1)) \<le> ventana s1"
    using Cons.prems by (simp add: s1_def k_def lenb)
  have len: "length (buffer s1) + length vs - nat (ventana s1) + k
             = length (buffer s) + length (v # vs) - nat (ventana s)"
    using Cons.prems by (simp add: s1_def k_def lenb)
  have "drop (length (buffer s1) + length vs - nat (ventana s1)) (buffer s1 @ ys)
        = drop (length (buffer s1) + length vs - nat (ventana s1)) (drop k (b @ ys))"
    using k by (simp add: s1_def)
  also have "\<dots> = drop (length (buffer s) + length (v # vs) - nat (ventana s)) (b @ ys)"
    by (simp only: drop_drop len)
  finally have bufs:
    "drop (length (buffer s1) + length vs - nat (ventana s1))
          (buffer s1 @ map (\<lambda>v. v + calibracion s1) vs)
     = drop (length (buffer s) + length (v # vs) - nat (ventana s))
          (buffer s @ map (\<lambda>v. v + calibracion s) (v # vs))"
    by (simp add: ys_def b_def s1_def)
  have "leer_todas s (v # vs) = leer_todas s1 vs" by (simp add: step)
  also have "\<dots> = Inr (s1\<lparr>buffer :=
      drop (length (buffer s1) + length vs - nat (ventana s1))
           (buffer s1 @ map (\<lambda>v. v + calibracion s1) vs)\<rparr>)"
    by (rule Cons.IH [OF inv])
  also have "\<dots> = Inr (s\<lparr>buffer :=
      drop (length (buffer s) + length (v # vs) - nat (ventana s))
           (buffer s @ map (\<lambda>v. v + calibracion s) (v # vs))\<rparr>)"
    unfolding bufs by (simp add: s1_def)
  finally show ?case .
qed

lemma leer_nonpositive:
  "ventana s \<le> 0 \<Longrightarrow> buffer s = [] \<Longrightarrow> leer s v = Inr s"
  by (simp add: leer_step)

lemma leer_todas_nonpositive:
  "ventana s \<le> 0 \<Longrightarrow> buffer s = [] \<Longrightarrow> leer_todas s vs = Inr s"
  by (induction vs) (simp_all add: leer_nonpositive)

subsection \<open>The average and the alert predicate never raise\<close>

lemma en_alerta_eq:
  "en_alerta s = Inr (case clase s of
       SensorTemperatura umbral \<Rightarrow> spec_average (buffer s) \<ge> umbral
     | SensorVibracion rms_umbral \<Rightarrow> \<bar>spec_average (buffer s)\<bar> \<ge> rms_umbral
     | SensorSismo magnitud_umbral \<Rightarrow> spec_average (buffer s) \<ge> magnitud_umbral
     | SensorVolcan temperatura_umbral gas_umbral \<Rightarrow>
         spec_average (buffer s) \<ge> temperatura_umbral \<or> spec_average (buffer s) \<ge> gas_umbral)"
  by (simp add: en_alerta_def promedio_eq split: variante.split)

subsection \<open>Claims about the window\<close>

text \<open>
  Claim C1. A sensor with a positive \<open>ventana\<close> starts with an empty buffer and is fed
  any list \<open>vs\<close> of readings. Every \<^verbatim>\<open>leer\<close> returns, the length of the buffer lies
  between 0 and \<open>ventana\<close>, and the buffer holds the calibrated readings that arrived last,
  oldest first. One more \<^verbatim>\<open>leer\<close> keeps the bound; when the buffer was full it drops the
  head, which is the oldest entry, and puts the new entry at the end.
\<close>

theorem leer_buffer_bounded_fifo:
  assumes "0 < ventana s" and "buffer s = []"
  shows "\<exists>s'. leer_todas s vs = Inr s'
           \<and> 0 \<le> int (length (buffer s')) \<and> int (length (buffer s')) \<le> ventana s
           \<and> buffer s' = drop (length vs - nat (ventana s)) (map (\<lambda>v. v + calibracion s) vs)
           \<and> (\<exists>s''. leer s' v = Inr s''
                 \<and> int (length (buffer s'')) \<le> ventana s
                 \<and> buffer s'' =
                     (if int (length (buffer s')) = ventana s
                      then tl (buffer s') @ [v + calibracion s]
                      else buffer s' @ [v + calibracion s]))"
proof -
  define b where "b = drop (length vs - nat (ventana s)) (map (\<lambda>v. v + calibracion s) vs)"
  define s' where "s' = s\<lparr>buffer := b\<rparr>"
  have run: "leer_todas s vs = Inr s'"
    using leer_todas_window [of s vs] assms by (simp add: s'_def b_def)
  have bs: "buffer s' = b" "ventana s' = ventana s" "calibracion s' = calibracion s"
    by (simp_all add: s'_def)
  have len: "int (length b) \<le> ventana s"
    using assms by (simp add: b_def)
  define s'' where "s'' = s'\<lparr>buffer :=
      (if ventana s' < int (length (buffer s')) + 1
       then tl (buffer s' @ [v + calibracion s'])
       else buffer s' @ [v + calibracion s'])\<rparr>"
  have step: "leer s' v = Inr s''"
    unfolding s''_def by (rule leer_step)
  have b2: "buffer s'' = (if int (length b) = ventana s
                          then tl b @ [v + calibracion s] else b @ [v + calibracion s])"
    using len assms(1) by (cases b) (auto simp: s''_def bs)
  have len2: "int (length (buffer s'')) \<le> ventana s"
    unfolding b2 using len assms(1) by (cases b) auto
  show ?thesis
  proof (rule exI [of _ s'], intro conjI)
    show "leer_todas s vs = Inr s'" by (rule run)
    show "0 \<le> int (length (buffer s'))" by simp
    show "int (length (buffer s')) \<le> ventana s" using len by (simp add: bs)
    show "buffer s' = drop (length vs - nat (ventana s)) (map (\<lambda>v. v + calibracion s) vs)"
      by (simp add: bs b_def)
    show "\<exists>s''. leer s' v = Inr s''
                 \<and> int (length (buffer s'')) \<le> ventana s
                 \<and> buffer s'' =
                     (if int (length (buffer s')) = ventana s
                      then tl (buffer s') @ [v + calibracion s]
                      else buffer s' @ [v + calibracion s])"
      using step b2 len2 by (auto simp: bs)
  qed
qed

theorem leer_buffer_bounded_fifo_witness:
  "\<exists>s'. leer_todas \<lparr>sensor_id = ''t1'', ventana = 2, calibracion = 0, buffer = [],
                      clase = SensorTemperatura 80\<rparr> [5, 6, 7] = Inr s'
        \<and> buffer s' = [6, 7]
        \<and> (\<exists>s''. leer s' 8 = Inr s'' \<and> buffer s'' = [7, 8])"
  using leer_buffer_bounded_fifo
    [of "\<lparr>sensor_id = ''t1'', ventana = 2, calibracion = 0, buffer = [], clase = SensorTemperatura 80\<rparr>"
        "[5, 6, 7]" 8]
  by auto

text \<open>
  Claim C2. \<^verbatim>\<open>promedio\<close> returns the arithmetic mean of the buffer, and 0 for an empty
  buffer; it never raises. With \<open>ventana = 3\<close>, no calibration and the readings
  1, 2, 3, 4 the buffer is 2, 3, 4 and \<^verbatim>\<open>promedio\<close> is 3.
\<close>

theorem promedio_is_mean:
  "promedio s = Inr (if buffer s = [] then 0
                     else sum_list (buffer s) / of_nat (length (buffer s)))
   \<and> (\<exists>s'. leer_todas \<lparr>sensor_id = i, ventana = 3, calibracion = 0, buffer = [], clase = c\<rparr>
                       [1, 2, 3, 4] = Inr s'
          \<and> buffer s' = [2, 3, 4] \<and> promedio s' = Inr 3)"
  by (simp add: promedio_def mean_def leer_step)

theorem promedio_is_mean_witness:
  "promedio \<lparr>sensor_id = ''v1'', ventana = 5, calibracion = 0, buffer = [1, 2, 6],
             clase = SensorVibracion 2\<rparr> = Inr 3
   \<and> promedio \<lparr>sensor_id = ''v1'', ventana = 5, calibracion = 0, buffer = [],
               clase = SensorVibracion 2\<rparr> = Inr 0"
  using promedio_is_mean
    [of "\<lparr>sensor_id = ''v1'', ventana = 5, calibracion = 0, buffer = [1, 2, 6],
          clase = SensorVibracion 2\<rparr>"]
    promedio_is_mean
    [of "\<lparr>sensor_id = ''v1'', ventana = 5, calibracion = 0, buffer = [],
          clase = SensorVibracion 2\<rparr>"]
  by simp

subsection \<open>Claims about the alert predicates\<close>

text \<open>
  Claim C4. For a volcano sensor \<^verbatim>\<open>en_alerta\<close> is true exactly when the average reaches
  \<open>temperatura_umbral\<close> or the same average reaches \<open>gas_umbral\<close>. An average of 910
  with thresholds 900 and 1000 is an alert.
\<close>

theorem volcan_en_alerta:
  "en_alerta (s\<lparr>clase := SensorVolcan temperatura_umbral gas_umbral\<rparr>)
     = Inr (spec_average (buffer s) \<ge> temperatura_umbral \<or> spec_average (buffer s) \<ge> gas_umbral)
   \<and> promedio (s\<lparr>clase := SensorVolcan temperatura_umbral gas_umbral\<rparr>)
     = Inr (spec_average (buffer s))
   \<and> promedio \<lparr>sensor_id = i, ventana = w, calibracion = c, buffer = [910],
               clase = SensorVolcan 900 1000\<rparr> = Inr 910
   \<and> en_alerta \<lparr>sensor_id = i, ventana = w, calibracion = c, buffer = [910],
                clase = SensorVolcan 900 1000\<rparr> = Inr True"
  by (simp add: en_alerta_eq promedio_eq spec_average_def)

theorem volcan_en_alerta_witness:
  "en_alerta \<lparr>sensor_id = ''v1'', ventana = 5, calibracion = 0, buffer = [40, 50],
              clase = SensorVolcan 900 50\<rparr> = Inr False
   \<and> en_alerta \<lparr>sensor_id = ''v1'', ventana = 5, calibracion = 0, buffer = [40, 60],
                clase = SensorVolcan 900 50\<rparr> = Inr True"
  using volcan_en_alerta
    [where s = "\<lparr>sensor_id = ''v1'', ventana = 5, calibracion = 0, buffer = [40, 50],
          clase = SensorVolcan 900 50\<rparr>" and temperatura_umbral = 900 and gas_umbral = 50]
    volcan_en_alerta
    [where s = "\<lparr>sensor_id = ''v1'', ventana = 5, calibracion = 0, buffer = [40, 60],
          clase = SensorVolcan 900 50\<rparr>" and temperatura_umbral = 900 and gas_umbral = 50]
  by (simp add: spec_average_def)

text \<open>
  Claim C6. For a temperature sensor \<^verbatim>\<open>en_alerta\<close> is true exactly when the average is
  greater than or equal to \<open>umbral\<close>: an average of exactly 80 with threshold 80 is an
  alert.
\<close>

theorem temperatura_en_alerta:
  "en_alerta (s\<lparr>clase := SensorTemperatura umbral\<rparr>) = Inr (spec_average (buffer s) \<ge> umbral)
   \<and> promedio (s\<lparr>clase := SensorTemperatura umbral\<rparr>) = Inr (spec_average (buffer s))
   \<and> promedio \<lparr>sensor_id = i, ventana = w, calibracion = c, buffer = [80],
               clase = SensorTemperatura 80\<rparr> = Inr 80
   \<and> en_alerta \<lparr>sensor_id = i, ventana = w, calibracion = c, buffer = [80],
                clase = SensorTemperatura 80\<rparr> = Inr True"
  by (simp add: en_alerta_eq promedio_eq spec_average_def)

theorem temperatura_en_alerta_witness:
  "en_alerta \<lparr>sensor_id = ''t1'', ventana = 5, calibracion = 0, buffer = [79, 80],
              clase = SensorTemperatura 80\<rparr> = Inr False
   \<and> en_alerta \<lparr>sensor_id = ''t1'', ventana = 5, calibracion = 0, buffer = [79, 81],
                clase = SensorTemperatura 80\<rparr> = Inr True"
  using temperatura_en_alerta
    [where s = "\<lparr>sensor_id = ''t1'', ventana = 5, calibracion = 0, buffer = [79, 80],
          clase = SensorTemperatura 80\<rparr>" and umbral = 80]
    temperatura_en_alerta
    [where s = "\<lparr>sensor_id = ''t1'', ventana = 5, calibracion = 0, buffer = [79, 81],
          clase = SensorTemperatura 80\<rparr>" and umbral = 80]
  by (simp add: spec_average_def)

text \<open>
  Claim C8. For a vibration sensor \<^verbatim>\<open>en_alerta\<close> is true exactly when the absolute value
  of the average reaches \<open>rms_umbral\<close>. This is not the root mean square of the window:
  the readings 3 and -3 have average 0, so with threshold 2.5 there is no alert, while
  their root mean square is 3.
\<close>

theorem vibracion_en_alerta:
  "en_alerta (s\<lparr>clase := SensorVibracion rms_umbral\<rparr>)
     = Inr (\<bar>spec_average (buffer s)\<bar> \<ge> rms_umbral)
   \<and> promedio (s\<lparr>clase := SensorVibracion rms_umbral\<rparr>) = Inr (spec_average (buffer s))
   \<and> en_alerta \<lparr>sensor_id = i, ventana = w, calibracion = c, buffer = [3, - 3],
                clase = SensorVibracion (5 / 2)\<rparr> = Inr False
   \<and> sqrt (real_of_rat (spec_average (map (\<lambda>x. x * x) [3, - 3]))) = 3"
proof -
  have "sqrt (real_of_rat (spec_average (map (\<lambda>x. x * x) [3, - 3]))) = sqrt (3\<^sup>2)"
    by (simp add: spec_average_def)
  also have "\<dots> = \<bar>3\<bar>" by (rule real_sqrt_abs)
  also have "\<dots> = 3" by simp
  finally show ?thesis
    by (simp add: en_alerta_eq promedio_eq spec_average_def)
qed

theorem vibracion_en_alerta_witness:
  "en_alerta \<lparr>sensor_id = ''b1'', ventana = 5, calibracion = 0, buffer = [- 2, - 4],
              clase = SensorVibracion (5 / 2)\<rparr> = Inr True
   \<and> en_alerta \<lparr>sensor_id = ''b1'', ventana = 5, calibracion = 0, buffer = [4, - 4, 3],
                clase = SensorVibracion (5 / 2)\<rparr> = Inr False"
  using vibracion_en_alerta
    [where s = "\<lparr>sensor_id = ''b1'', ventana = 5, calibracion = 0, buffer = [- 2, - 4],
          clase = SensorVibracion (5 / 2)\<rparr>" and rms_umbral = "5 / 2"]
    vibracion_en_alerta
    [where s = "\<lparr>sensor_id = ''b1'', ventana = 5, calibracion = 0, buffer = [4, - 4, 3],
          clase = SensorVibracion (5 / 2)\<rparr>" and rms_umbral = "5 / 2"]
  by (simp add: spec_average_def)

subsection \<open>Claims about calibration and windows that are not positive\<close>

text \<open>
  Claim C7. \<^verbatim>\<open>leer\<close> returns, leaves \<open>calibracion\<close> as it was, and appends exactly
  \<open>v + calibracion s\<close>: the new buffer is the old one followed by that entry, less the
  head when the window overflowed. The entries already stored are not changed. With a
  positive \<open>ventana\<close> the new entry is the last one of the buffer. Readings fed into an
  empty buffer that they do not overflow are stored each with the offset added once.
\<close>

theorem leer_calibracion:
  "\<exists>s'. leer s v = Inr s'
        \<and> calibracion s' = calibracion s
        \<and> buffer s' = drop (if ventana s < int (length (buffer s)) + 1 then 1 else 0)
                            (buffer s @ [v + calibracion s])
        \<and> (0 < ventana s \<longrightarrow> buffer s' \<noteq> [] \<and> last (buffer s') = v + calibracion s)
        \<and> (buffer s = [] \<and> int (length vs) \<le> ventana s \<longrightarrow>
             leer_todas s vs = Inr (s\<lparr>buffer := map (\<lambda>x. x + calibracion s) vs\<rparr>))"
proof -
  have a: "(if ventana s < int (length (buffer s)) + 1
       then tl (buffer s @ [v + calibracion s])
       else buffer s @ [v + calibracion s])
     = drop (if ventana s < int (length (buffer s)) + 1 then 1 else 0)
            (buffer s @ [v + calibracion s])"
    by (simp only: drop_one_tl drop_0 if_distrib [of "\<lambda>k. drop k (buffer s @ [v + calibracion s])"])
  have b: "0 < ventana s \<Longrightarrow> ventana s < int (length (buffer s)) + 1 \<Longrightarrow>
             tl (buffer s @ [v + calibracion s]) \<noteq> []
             \<and> last (tl (buffer s @ [v + calibracion s])) = v + calibracion s"
    by (cases "buffer s") auto
  have c: "buffer s = [] \<Longrightarrow> int (length vs) \<le> ventana s \<Longrightarrow>
             leer_todas s vs = Inr (s\<lparr>buffer := map (\<lambda>x. x + calibracion s) vs\<rparr>)"
    using leer_todas_window [of s vs] by simp
  show ?thesis
    unfolding leer_step a using b c by (auto simp: a [symmetric])
qed

theorem leer_calibracion_witness:
  "\<exists>s'. leer \<lparr>sensor_id = ''t1'', ventana = 5, calibracion = 1, buffer = [],
               clase = SensorTemperatura 80\<rparr> 9 = Inr s'
        \<and> buffer s' = [10]"
  using leer_calibracion
    [of "\<lparr>sensor_id = ''t1'', ventana = 5, calibracion = 1, buffer = [], clase = SensorTemperatura 80\<rparr>"
        9 "[9]"]
  by auto

text \<open>
  Claim C10. A sensor with \<open>ventana \<le> 0\<close> and an empty buffer: every \<^verbatim>\<open>leer\<close> returns
  without an exception and gives back the sensor unchanged, the buffer still empty, after
  one reading and after any list of readings. \<^verbatim>\<open>promedio\<close> is 0 and \<^verbatim>\<open>en_alerta\<close>
  compares 0 with the thresholds of the class.
\<close>

theorem leer_ventana_no_positiva:
  assumes "ventana s \<le> 0" and "buffer s = []"
  shows "leer_todas s vs = Inr s
         \<and> leer s v = Inr s
         \<and> promedio s = Inr 0
         \<and> en_alerta s = Inr (case clase s of
               SensorTemperatura umbral \<Rightarrow> 0 \<ge> umbral
             | SensorVibracion rms_umbral \<Rightarrow> \<bar>0\<bar> \<ge> rms_umbral
             | SensorSismo magnitud_umbral \<Rightarrow> 0 \<ge> magnitud_umbral
             | SensorVolcan temperatura_umbral gas_umbral \<Rightarrow>
                 0 \<ge> temperatura_umbral \<or> 0 \<ge> gas_umbral)"
  using assms
  by (simp add: leer_todas_nonpositive leer_nonpositive promedio_eq en_alerta_eq spec_average_def
           split: variante.split)

theorem leer_ventana_no_positiva_witness:
  "leer_todas \<lparr>sensor_id = ''s1'', ventana = 0, calibracion = 2, buffer = [],
               clase = SensorSismo 5\<rparr> [7, 8, 9]
     = Inr \<lparr>sensor_id = ''s1'', ventana = 0, calibracion = 2, buffer = [], clase = SensorSismo 5\<rparr>
   \<and> en_alerta \<lparr>sensor_id = ''s1'', ventana = 0, calibracion = 2, buffer = [],
                clase = SensorSismo 5\<rparr> = Inr False
   \<and> en_alerta \<lparr>sensor_id = ''s1'', ventana = - 1, calibracion = 2, buffer = [],
                clase = SensorSismo (- 1)\<rparr> = Inr True"
  using leer_ventana_no_positiva
    [of "\<lparr>sensor_id = ''s1'', ventana = 0, calibracion = 2, buffer = [], clase = SensorSismo 5\<rparr>"
        "[7, 8, 9]" 7]
    leer_ventana_no_positiva
    [of "\<lparr>sensor_id = ''s1'', ventana = - 1, calibracion = 2, buffer = [], clase = SensorSismo (- 1)\<rparr>"
        "[]" 0]
  by (simp del: leer_todas.simps)

subsection \<open>The calls in a trace\<close>

lemma llamadas_append: "llamadas (a @ b) = llamadas a @ llamadas b"
  by (induction a rule: llamadas.induct) simp_all

lemma enviar_traza: "\<exists>e. enviar n msg t = t @ e \<and> llamadas e = [(n, msg)]"
  by (cases n) simp_all

lemma notificar_todos_traza:
  "\<exists>u. notificar_todos ns msg t = t @ u \<and> llamadas u = map (\<lambda>n. (n, msg)) ns"
proof (induction ns arbitrary: t)
  case Nil
  show ?case by simp
next
  case (Cons n ns)
  obtain e where e: "enviar n msg t = t @ e" "llamadas e = [(n, msg)]"
    using enviar_traza by blast
  obtain u where u: "notificar_todos ns msg (t @ e) = (t @ e) @ u"
      "llamadas u = map (\<lambda>n. (n, msg)) ns"
    using Cons.IH by blast
  have "notificar_todos (n # ns) msg t = t @ (e @ u)" by (simp add: e u)
  moreover have "llamadas (e @ u) = map (\<lambda>n. (n, msg)) (n # ns)"
    by (simp add: llamadas_append e u)
  ultimately show ?case by blast
qed

lemma evaluar_sensores_traza:
  "\<exists>u. evaluar_sensores ss ns t = Inr (t @ u)
      \<and> llamadas u = concat (map
           (\<lambda>s. map (\<lambda>n. (n, ''ALERTA: Sensor '' @ sensor_id s @ '' en umbral (avg=''
                               @ format_2f (spec_average (buffer s)) @ '')'')) ns)
           (filter (\<lambda>s. en_alerta s = Inr True) ss))"
proof (induction ss arbitrary: t)
  case Nil
  show ?case by simp
next
  case (Cons s ss)
  define msg where "msg = ''ALERTA: Sensor '' @ sensor_id s @ '' en umbral (avg=''
                               @ format_2f (spec_average (buffer s)) @ '')''"
  obtain b where b: "en_alerta s = Inr b" using en_alerta_eq by blast
  show ?case
  proof (cases b)
    case True
    obtain w where w: "notificar_todos ns msg t = t @ w" "llamadas w = map (\<lambda>n. (n, msg)) ns"
      using notificar_todos_traza by blast
    obtain u where u: "evaluar_sensores ss ns (t @ w) = Inr ((t @ w) @ u)"
      "llamadas u = concat (map
           (\<lambda>s. map (\<lambda>n. (n, ''ALERTA: Sensor '' @ sensor_id s @ '' en umbral (avg=''
                               @ format_2f (spec_average (buffer s)) @ '')'')) ns)
           (filter (\<lambda>s. en_alerta s = Inr True) ss))"
      using Cons.IH by blast
    have "evaluar_sensores (s # ss) ns t = Inr (t @ (w @ u))"
      using b True w u by (simp add: promedio_eq msg_def)
    moreover have "llamadas (w @ u) = concat (map
           (\<lambda>s. map (\<lambda>n. (n, ''ALERTA: Sensor '' @ sensor_id s @ '' en umbral (avg=''
                               @ format_2f (spec_average (buffer s)) @ '')'')) ns)
           (filter (\<lambda>s. en_alerta s = Inr True) (s # ss)))"
      using b True by (simp add: llamadas_append w u msg_def)
    ultimately show ?thesis by blast
  next
    case False
    then show ?thesis using Cons.IH [of t] b by simp
  qed
qed

lemma actualizar_indicadores_traza:
  "\<exists>u. actualizar_indicadores ss n t = Inr (t @ u)
      \<and> llamadas u = map (\<lambda>s. (n, ''ALERTA: '' @ sensor_id s @ '' en estado ALERTA''))
                         (filter (\<lambda>s. en_alerta s = Inr True) ss)"
proof (induction ss arbitrary: t)
  case Nil
  show ?case by simp
next
  case (Cons s ss)
  obtain b where b: "en_alerta s = Inr b" using en_alerta_eq by blast
  define l where "l = Print (''[PANEL] Sensor '' @ sensor_id s @ '': ''
                       @ (if b then ''ALERTA'' else ''NORMAL'')
                       @ '' (avg='' @ format_2f (spec_average (buffer s)) @ '')'')"
  show ?case
  proof (cases b)
    case True
    obtain e where e: "enviar n (''ALERTA: '' @ sensor_id s @ '' en estado ALERTA'') (t @ [l])
                        = (t @ [l]) @ e"
       "llamadas e = [(n, ''ALERTA: '' @ sensor_id s @ '' en estado ALERTA'')]"
      using enviar_traza by blast
    obtain u where u: "actualizar_indicadores ss n ((t @ [l]) @ e) = Inr (((t @ [l]) @ e) @ u)"
      "llamadas u = map (\<lambda>s. (n, ''ALERTA: '' @ sensor_id s @ '' en estado ALERTA''))
                         (filter (\<lambda>s. en_alerta s = Inr True) ss)"
      using Cons.IH by blast
    have "actualizar_indicadores (s # ss) n t = Inr (t @ ([l] @ e @ u))"
      using b True e u by (simp add: promedio_eq l_def)
    moreover have "llamadas ([l] @ e @ u)
        = map (\<lambda>s. (n, ''ALERTA: '' @ sensor_id s @ '' en estado ALERTA''))
              (filter (\<lambda>s. en_alerta s = Inr True) (s # ss))"
      using b True by (simp add: llamadas_append e u l_def)
    ultimately show ?thesis by blast
  next
    case False
    obtain u where u: "actualizar_indicadores ss n (t @ [l]) = Inr ((t @ [l]) @ u)"
      "llamadas u = map (\<lambda>s. (n, ''ALERTA: '' @ sensor_id s @ '' en estado ALERTA''))
                         (filter (\<lambda>s. en_alerta s = Inr True) ss)"
      using Cons.IH by blast
    have "actualizar_indicadores (s # ss) n t = Inr (t @ ([l] @ u))"
      using b False u by (simp add: promedio_eq l_def)
    moreover have "llamadas ([l] @ u)
        = map (\<lambda>s. (n, ''ALERTA: '' @ sensor_id s @ '' en estado ALERTA''))
              (filter (\<lambda>s. en_alerta s = Inr True) (s # ss))"
      using b False by (simp add: llamadas_append u l_def)
    ultimately show ?thesis by blast
  qed
qed

subsection \<open>Claims about the dispatch of alerts\<close>

text \<open>
  Claim C3. \<^verbatim>\<open>evaluar_y_notificar\<close> returns, and the calls of \<^verbatim>\<open>enviar\<close> it adds to the
  trace are, sensor by sensor in the order of \<open>sensores\<close> and only for the sensors whose
  \<^verbatim>\<open>en_alerta\<close> is true, one call per channel in the order of \<open>notificadores\<close>, each with
  the message \<^verbatim>\<open>ALERTA: Sensor {id} en umbral (avg={promedio:.2f})\<close>. A sensor that is not
  in alert adds no call. With two sensors in alert and two channels there are exactly four
  calls, the two channels for the first sensor and then the two channels for the second.
\<close>

theorem evaluar_y_notificar_fan_out:
  "\<exists>u. evaluar_y_notificar g t = Inr (t @ u)
      \<and> llamadas u = concat (map
           (\<lambda>s. map (\<lambda>n. (n, ''ALERTA: Sensor '' @ sensor_id s @ '' en umbral (avg=''
                               @ format_2f (spec_average (buffer s)) @ '')''))
                     (notificadores g))
           (filter (\<lambda>s. en_alerta s = Inr True) (sensores g)))
      \<and> (sensores g = [s1, s2] \<and> notificadores g = [n1, n2]
           \<and> en_alerta s1 = Inr True \<and> en_alerta s2 = Inr True \<longrightarrow>
         length (llamadas u) = 4
         \<and> llamadas u =
             [(n1, ''ALERTA: Sensor '' @ sensor_id s1 @ '' en umbral (avg=''
                     @ format_2f (spec_average (buffer s1)) @ '')''),
              (n2, ''ALERTA: Sensor '' @ sensor_id s1 @ '' en umbral (avg=''
                     @ format_2f (spec_average (buffer s1)) @ '')''),
              (n1, ''ALERTA: Sensor '' @ sensor_id s2 @ '' en umbral (avg=''
                     @ format_2f (spec_average (buffer s2)) @ '')''),
              (n2, ''ALERTA: Sensor '' @ sensor_id s2 @ '' en umbral (avg=''
                     @ format_2f (spec_average (buffer s2)) @ '')'')])"
proof -
  obtain u where u: "evaluar_sensores (sensores g) (notificadores g) t = Inr (t @ u)"
    "llamadas u = concat (map
           (\<lambda>s. map (\<lambda>n. (n, ''ALERTA: Sensor '' @ sensor_id s @ '' en umbral (avg=''
                               @ format_2f (spec_average (buffer s)) @ '')''))
                     (notificadores g))
           (filter (\<lambda>s. en_alerta s = Inr True) (sensores g)))"
    using evaluar_sensores_traza by blast
  show ?thesis
  proof (rule exI [of _ u], intro conjI impI)
    show "evaluar_y_notificar g t = Inr (t @ u)"
      by (simp add: evaluar_y_notificar_def u)
    show "llamadas u = concat (map
           (\<lambda>s. map (\<lambda>n. (n, ''ALERTA: Sensor '' @ sensor_id s @ '' en umbral (avg=''
                               @ format_2f (spec_average (buffer s)) @ '')''))
                     (notificadores g))
           (filter (\<lambda>s. en_alerta s = Inr True) (sensores g)))"
      by (rule u)
  next
    assume a: "sensores g = [s1, s2] \<and> notificadores g = [n1, n2]
           \<and> en_alerta s1 = Inr True \<and> en_alerta s2 = Inr True"
    then show "length (llamadas u) = 4" by (simp add: u)
    from a show "llamadas u =
             [(n1, ''ALERTA: Sensor '' @ sensor_id s1 @ '' en umbral (avg=''
                     @ format_2f (spec_average (buffer s1)) @ '')''),
              (n2, ''ALERTA: Sensor '' @ sensor_id s1 @ '' en umbral (avg=''
                     @ format_2f (spec_average (buffer s1)) @ '')''),
              (n1, ''ALERTA: Sensor '' @ sensor_id s2 @ '' en umbral (avg=''
                     @ format_2f (spec_average (buffer s2)) @ '')''),
              (n2, ''ALERTA: Sensor '' @ sensor_id s2 @ '' en umbral (avg=''
                     @ format_2f (spec_average (buffer s2)) @ '')'')]"
      by (simp add: u)
  qed
qed

theorem evaluar_y_notificar_fan_out_witness:
  "\<exists>u. evaluar_y_notificar
          \<lparr>sensores =
             [\<lparr>sensor_id = ''t1'', ventana = 5, calibracion = 0, buffer = [85],
               clase = SensorTemperatura 80\<rparr>,
              \<lparr>sensor_id = ''q2'', ventana = 5, calibracion = 0, buffer = [6, 7],
               clase = SensorSismo 5\<rparr>],
           notificadores = [NotificadorEmail ''a@b.c'', NotificadorSMS ''555'']\<rparr> []
        = Inr u
      \<and> llamadas u =
          [(NotificadorEmail ''a@b.c'', ''ALERTA: Sensor t1 en umbral (avg=85.00)''),
           (NotificadorSMS ''555'', ''ALERTA: Sensor t1 en umbral (avg=85.00)''),
           (NotificadorEmail ''a@b.c'', ''ALERTA: Sensor q2 en umbral (avg=6.50)''),
           (NotificadorSMS ''555'', ''ALERTA: Sensor q2 en umbral (avg=6.50)'')]"
  using evaluar_y_notificar_fan_out
    [where g = "\<lparr>sensores =
             [\<lparr>sensor_id = ''t1'', ventana = 5, calibracion = 0, buffer = [85],
               clase = SensorTemperatura 80\<rparr>,
              \<lparr>sensor_id = ''q2'', ventana = 5, calibracion = 0, buffer = [6, 7],
               clase = SensorSismo 5\<rparr>],
           notificadores = [NotificadorEmail ''a@b.c'', NotificadorSMS ''555'']\<rparr>"
       and t = "[]"
       and ?s1.0 = "\<lparr>sensor_id = ''t1'', ventana = 5, calibracion = 0, buffer = [85],
               clase = SensorTemperatura 80\<rparr>"
       and ?s2.0 = "\<lparr>sensor_id = ''q2'', ventana = 5, calibracion = 0, buffer = [6, 7],
               clase = SensorSismo 5\<rparr>"
       and ?n1.0 = "NotificadorEmail ''a@b.c''" and ?n2.0 = "NotificadorSMS ''555''"]
  by (auto simp: en_alerta_eq spec_average_def format_2f_85 format_2f_13_2)

text \<open>
  Claim C5 as stated says that the panel never sends through a channel held by the
  \<open>gestor\<close>. \<^verbatim>\<open>probar_sistema\<close> builds the \<open>gestor\<close> and the panel with the same
  channel, and then the one alert of the panel goes through a channel that the
  \<open>gestor\<close> holds.
\<close>

theorem actualizar_panel_shared_channel_counterexample:
  "actualizar_panel
     \<lparr>gestor = \<lparr>sensores = [\<lparr>sensor_id = ''t1'', ventana = 5, calibracion = 0, buffer = [85],
                              clase = SensorTemperatura 80\<rparr>],
                 notificadores = [NotificadorEmail ''a@b.c'']\<rparr>,
      notificador = NotificadorEmail ''a@b.c'',
      indicadores = [\<lparr>sensor_id = ''t1'', ventana = 5, calibracion = 0, buffer = [85],
                      clase = SensorTemperatura 80\<rparr>]\<rparr> []
   = Inr [Print ''[PANEL] Sensor t1: ALERTA (avg=85.00)'',
          Llamada (NotificadorEmail ''a@b.c'') ''ALERTA: t1 en estado ALERTA'',
          Print ''[EMAIL a a@b.c] ALERTA: t1 en estado ALERTA'']
   \<and> NotificadorEmail ''a@b.c''
       \<in> set (notificadores (gestor
           \<lparr>gestor = \<lparr>sensores = [\<lparr>sensor_id = ''t1'', ventana = 5, calibracion = 0,
                                    buffer = [85], clase = SensorTemperatura 80\<rparr>],
                       notificadores = [NotificadorEmail ''a@b.c'']\<rparr>,
            notificador = NotificadorEmail ''a@b.c'',
            indicadores = [\<lparr>sensor_id = ''t1'', ventana = 5, calibracion = 0, buffer = [85],
                            clase = SensorTemperatura 80\<rparr>]\<rparr>))"
  by (simp add: actualizar_panel_def en_alerta_eq promedio_eq spec_average_def format_2f_85 Let_def)

text \<open>
  Claim C5, as amended. \<^verbatim>\<open>actualizar_panel\<close> returns; the calls of \<^verbatim>\<open>enviar\<close> it adds
  are one per indicator sensor in alert, in order, each through the channel of the panel
  and with the message \<^verbatim>\<open>ALERTA: {id} en estado ALERTA\<close>; a sensor not in alert adds no
  call. The result does not depend on the \<open>gestor\<close> the panel holds, and a channel of
  the \<open>gestor\<close> that is not the channel of the panel receives nothing.
\<close>

theorem actualizar_panel_own_channel:
  "\<exists>u. actualizar_panel p t = Inr (t @ u)
      \<and> actualizar_panel (p\<lparr>gestor := g\<rparr>) t = Inr (t @ u)
      \<and> llamadas u = map (\<lambda>s. (notificador p, ''ALERTA: '' @ sensor_id s @ '' en estado ALERTA''))
                         (filter (\<lambda>s. en_alerta s = Inr True) (indicadores p))
      \<and> length (llamadas u) = length (filter (\<lambda>s. en_alerta s = Inr True) (indicadores p))
      \<and> (\<forall>c \<in> set (llamadas u). fst c = notificador p)
      \<and> (\<forall>n \<in> set (notificadores (gestor p)).
            n \<noteq> notificador p \<longrightarrow> n \<notin> fst ` set (llamadas u))"
proof -
  obtain u where u: "actualizar_indicadores (indicadores p) (notificador p) t = Inr (t @ u)"
    "llamadas u = map (\<lambda>s. (notificador p, ''ALERTA: '' @ sensor_id s @ '' en estado ALERTA''))
                         (filter (\<lambda>s. en_alerta s = Inr True) (indicadores p))"
    using actualizar_indicadores_traza by blast
  have own: "\<forall>c \<in> set (llamadas u). fst c = notificador p"
    unfolding u(2) by auto
  show ?thesis
  proof (rule exI [of _ u], intro conjI)
    show "actualizar_panel p t = Inr (t @ u)"
      by (simp add: actualizar_panel_def u)
    show "actualizar_panel (p\<lparr>gestor := g\<rparr>) t = Inr (t @ u)"
      by (simp add: actualizar_panel_def u)
    show "llamadas u = map (\<lambda>s. (notificador p, ''ALERTA: '' @ sensor_id s @ '' en estado ALERTA''))
                         (filter (\<lambda>s. en_alerta s = Inr True) (indicadores p))"
      by (rule u)
    show "length (llamadas u) = length (filter (\<lambda>s. en_alerta s = Inr True) (indicadores p))"
      by (simp add: u)
    show "\<forall>c \<in> set (llamadas u). fst c = notificador p" by (rule own)
    show "\<forall>n \<in> set (notificadores (gestor p)).
            n \<noteq> notificador p \<longrightarrow> n \<notin> fst ` set (llamadas u)"
      using own by auto
  qed
qed

theorem actualizar_panel_own_channel_witness:
  "\<exists>u. actualizar_panel
          \<lparr>gestor = \<lparr>sensores = [], notificadores = [NotificadorEmail ''a@b.c'',
                                                     NotificadorWebhook ''http://h'']\<rparr>,
           notificador = NotificadorSMS ''555'',
           indicadores =
             [\<lparr>sensor_id = ''t1'', ventana = 5, calibracion = 0, buffer = [85],
               clase = SensorTemperatura 80\<rparr>,
              \<lparr>sensor_id = ''q2'', ventana = 5, calibracion = 0, buffer = [1, 2],
               clase = SensorSismo 5\<rparr>]\<rparr> []
        = Inr u
      \<and> llamadas u = [(NotificadorSMS ''555'', ''ALERTA: t1 en estado ALERTA'')]
      \<and> NotificadorEmail ''a@b.c'' \<notin> fst ` set (llamadas u)
      \<and> NotificadorWebhook ''http://h'' \<notin> fst ` set (llamadas u)"
  using actualizar_panel_own_channel
    [where p = "\<lparr>gestor = \<lparr>sensores = [], notificadores = [NotificadorEmail ''a@b.c'',
                                                     NotificadorWebhook ''http://h'']\<rparr>,
           notificador = NotificadorSMS ''555'',
           indicadores =
             [\<lparr>sensor_id = ''t1'', ventana = 5, calibracion = 0, buffer = [85],
               clase = SensorTemperatura 80\<rparr>,
              \<lparr>sensor_id = ''q2'', ventana = 5, calibracion = 0, buffer = [1, 2],
               clase = SensorSismo 5\<rparr>]\<rparr>"
       and t = "[]" and g = "\<lparr>sensores = [], notificadores = []\<rparr>"]
  by (auto simp: en_alerta_eq spec_average_def)

subsection \<open>Claims about the event history\<close>

text \<open>
  Claim C9. \<^verbatim>\<open>agregar_evento\<close> puts exactly one new record, holding the given sensor and
  message, at the end of \<open>registros\<close>; the records that were there stay as they were and
  where they were. After any list of additions to an empty history the records are as
  many as the additions and hold their sensors, messages and timestamps in the order of
  insertion.
\<close>

theorem agregar_evento_append_only:
  "registros (agregar_evento h s msg now)
     = registros h @ [\<lparr>sensor = s, mensaje = msg, timestamp = now\<rparr>]
   \<and> length (registros (agregar_evento h s msg now)) = length (registros h) + 1
   \<and> take (length (registros h)) (registros (agregar_evento h s msg now)) = registros h
   \<and> length (registros (agregar_eventos \<lparr>registros = []\<rparr> evs)) = length evs
   \<and> map (\<lambda>r. (sensor r, mensaje r, timestamp r))
         (registros (agregar_eventos \<lparr>registros = []\<rparr> evs)) = evs"
proof -
  have gen: "\<And>h. map (\<lambda>r. (sensor r, mensaje r, timestamp r)) (registros (agregar_eventos h evs))
             = map (\<lambda>r. (sensor r, mensaje r, timestamp r)) (registros h) @ evs"
    by (induction evs) (auto simp: agregar_evento_def)
  have m: "map (\<lambda>r. (sensor r, mensaje r, timestamp r))
             (registros (agregar_eventos \<lparr>registros = []\<rparr> evs)) = evs"
    using gen [of "\<lparr>registros = []\<rparr>"] by simp
  have "length (map (\<lambda>r. (sensor r, mensaje r, timestamp r))
             (registros (agregar_eventos \<lparr>registros = []\<rparr> evs))) = length evs"
    by (simp only: m)
  then have l: "length (registros (agregar_eventos \<lparr>registros = []\<rparr> evs)) = length evs"
    by simp
  show ?thesis using m l by (simp add: agregar_evento_def)
qed

theorem agregar_evento_append_only_witness:
  "map mensaje (registros (agregar_eventos \<lparr>registros = []\<rparr>
       [(\<lparr>sensor_id = ''t1'', ventana = 5, calibracion = 0, buffer = [85],
          clase = SensorTemperatura 80\<rparr>, ''primero'', 10),
        (\<lparr>sensor_id = ''q2'', ventana = 5, calibracion = 0, buffer = [],
          clase = SensorSismo 5\<rparr>, ''segundo'', 10),
        (\<lparr>sensor_id = ''t1'', ventana = 5, calibracion = 0, buffer = [85],
          clase = SensorTemperatura 80\<rparr>, ''tercero'', 12)]))
   = [''primero'', ''segundo'', ''tercero'']"
  using agregar_evento_append_only
    [where evs = "[(\<lparr>sensor_id = ''t1'', ventana = 5, calibracion = 0, buffer = [85],
          clase = SensorTemperatura 80\<rparr>, ''primero'', 10),
        (\<lparr>sensor_id = ''q2'', ventana = 5, calibracion = 0, buffer = [],
          clase = SensorSismo 5\<rparr>, ''segundo'', 10),
        (\<lparr>sensor_id = ''t1'', ventana = 5, calibracion = 0, buffer = [85],
          clase = SensorTemperatura 80\<rparr>, ''tercero'', 12)]"]
  by (simp add: agregar_evento_def)

end
